theory Spec2Isabelle
  imports Complex_Main "HOL-Library.Word"
begin

section \<open>The session-protocol engine of lib/exabgp/bgp/protocol.py\<close>

text \<open>
  A shallow embedding of the class \<open>Protocol\<close>. Python 2 byte strings are lists of
  8-bit words, Python integers are \<open>int\<close>, counts are \<open>nat\<close>, and the float
  timestamps of \<open>time.time()\<close> are idealised as \<open>real\<close> (exact arithmetic). Every
  \<open>raise\<close> of the source is a value of the type \<open>error\<close>; a method that mutates
  the object returns the new object beside its result. Attribute names that start with
  an underscore lose it (\<open>_messages\<close> is \<open>messages\<close>, \<open>_frozen\<close> is
  \<open>frozen\<close>, \<open>_backlog\<close> is \<open>backlog\<close>, \<open>_announce\<close> is \<open>announce\<close>).
\<close>

subsection \<open>Data\<close>

type_synonym byte = "8 word"
type_synonym bytes = "byte list"

text \<open>
  The classes \<open>Open\<close>, \<open>Update\<close>, \<open>KeepAlive\<close>, \<open>NOP\<close> are decoded messages. Only
  the attributes that protocol.py reads are fields here. \<open>NOP ()\<close> is \<open>NOP None\<close> and
  \<open>NOP().factory(msg)\<close> is \<open>NOP (Some msg)\<close>.
\<close>

record open_msg =
  asn :: int
  hold_time :: int
  router_id :: "32 word"

record update_msg =
  routes :: "bytes list"

datatype message =
    NOP "byte option"
  | KeepAlive
  | Open open_msg
  | Update update_msg

text \<open>
  Values handed to exceptions and to the logger. \<open>Fmt f args\<close> is the Python
  expression \<open>f % args\<close>, kept unevaluated: string formatting is not part of this
  program.
\<close>

datatype pyval =
    S string
  | B bytes
  | I int
  | R real
  | M message
  | Rid "32 word"
  | Fmt string "pyval list"

text \<open>
  \<open>Notify code subcode data\<close>: the protocol rejection; \<open>data\<close> is \<open>None\<close> where the
  source gives no third argument. \<open>Failure\<close> is the fatal failure, \<open>Notification\<close> the
  NOTIFICATION received from the peer (with its body) raised by \<open>read_message\<close>. The
  last four are the exceptions of the Python run-time that the modelled lines can raise.
\<close>

datatype error =
    Notify nat nat "pyval option"
  | Failure pyval
  | Notification bytes
  | TypeError
  | AttributeError
  | IndexError
  | StructError

record neighbor =
  peer_address :: string
  peer_as :: int
  local_as :: int
  router_id :: "32 word"
  hold_time :: int
  parse_routes :: bool

text \<open>
  One entry of the backlog \<open>_messages\<close>: \<open>(number, name, update)\<close>.
\<close>

type_synonym entry = "nat \<times> string \<times> bytes"

text \<open>
  The object. \<open>'c\<close> is the state of the \<open>Connection\<close>, \<open>'n\<close> the state of
  \<open>Negociated\<close>; both classes live outside protocol.py. \<open>frozen\<close> is \<open>0\<close> when
  unset, as in the source. \<open>hold_time\<close> is \<open>None\<close> until \<open>read_open\<close> sets it.
  \<open>logged\<close> collects the arguments of \<open>self.logger.message\<close> in order.
\<close>

record ('c, 'n) protocol =
  neighbor :: neighbor
  connection :: 'c
  negociated :: 'n
  messages :: "entry list"
  frozen :: real
  message_size :: nat
  hold_time :: "int option"
  logged :: "pyval list"

text \<open>
  What protocol.py imports and calls but does not define: the transport
  (\<open>pending\<close>, \<open>read\<close>, \<open>write\<close> as \<open>conn_write\<close>, \<open>last_read\<close>, \<open>last_write\<close>), the message
  codecs, the marker constant, the negotiation (\<open>received\<close>, \<open>asn4_problem\<close>,
  \<open>peer_as\<close>) and \<open>HoldTime.keepalive\<close>. Operations on the connection return its
  new state.
\<close>

record ('c, 'n) env =
  pending :: "bool \<Rightarrow> 'c \<Rightarrow> bool \<times> 'c"
  read :: "int \<Rightarrow> 'c \<Rightarrow> bytes \<times> 'c"
  conn_write :: "bytes \<Rightarrow> 'c \<Rightarrow> bool \<times> 'c"
  last_read :: "'c \<Rightarrow> real"
  last_write :: "'c \<Rightarrow> real"
  MARKER :: bytes
  open_factory :: "bytes \<Rightarrow> error + open_msg"
  update_factory :: "'n \<Rightarrow> bytes \<Rightarrow> error + update_msg"
  received :: "'n \<Rightarrow> open_msg \<Rightarrow> 'n"
  asn4_problem :: "'n \<Rightarrow> bool"
  negociated_peer_as :: "'n \<Rightarrow> int"
  keepalive :: "int \<Rightarrow> real"

definition MAX_BACKLOG :: nat where
  "MAX_BACKLOG = 15000"

text \<open>
  \<open>self.me(message)\<close>.
\<close>

definition me :: "('c, 'n) protocol \<Rightarrow> pyval \<Rightarrow> pyval" where
  "me self message =
     Fmt ''Peer %15s ASN %-7s %s''
       [S (peer_address (neighbor self)), I (peer_as (neighbor self)), message]"

definition log_message :: "pyval \<Rightarrow> ('c, 'n) protocol \<Rightarrow> ('c, 'n) protocol" where
  "log_message line self = self\<lparr>logged := logged self @ [line]\<rparr>"

text \<open>
  Python's \<open>int(x)\<close> on a float: truncation towards zero.
\<close>

definition py_int :: "real \<Rightarrow> int" where
  "py_int x = (if 0 \<le> x then \<lfloor>x\<rfloor> else \<lceil>x\<rceil>)"

subsection \<open>Chunking\<close>

text \<open>
  The generator \<open>chunked\<close> inside \<open>_announce\<close>. \<open>chunked_loop\<close> is the body of
  its \<open>for\<close> loop with the local variables \<open>chunk\<close> and \<open>number\<close>; the result is
  the list of the pairs it yields, in order, and the exception that ends the iteration,
  if any. The parameter \<open>size\<close> is \<open>sz\<close>.
\<close>

fun chunked_loop :: "bytes list \<Rightarrow> nat \<Rightarrow> bytes \<Rightarrow> nat \<Rightarrow> (nat \<times> bytes) list \<times> error option" where
  "chunked_loop [] sz chunk number =
     (if chunk \<noteq> [] then ([(number, chunk)], None) else ([], None))"
| "chunked_loop (data # generator) sz chunk number =
     (if length data > sz then
        ([], Some (Failure (Fmt ''Can not send BGP update larger than %d bytes on this connection.'' [I (int sz)])))
      else if length chunk + length data \<le> sz then
        chunked_loop generator sz (chunk @ data) (number + 1)
      else
        (case chunked_loop generator sz data 1 of
           (ys, e) \<Rightarrow> ((number, chunk) # ys, e)))"

definition chunked :: "bytes list \<Rightarrow> nat \<Rightarrow> (nat \<times> bytes) list \<times> error option" where
  "chunked generator sz = chunked_loop generator sz [] 0"

subsection \<open>Reading from the network\<close>

text \<open>
  Modelled from the spec: the class constants \<open>Open.TYPE\<close>, \<open>Update.TYPE\<close>,
  \<open>Notification.TYPE\<close> and \<open>KeepAlive.TYPE\<close> of the message classes, which
  protocol.py imports. The spec gives the type byte of the wire format as 1 for OPEN,
  2 for UPDATE, 3 for NOTIFICATION and 4 for KEEPALIVE.
\<close>

definition Open_TYPE :: byte where
  "Open_TYPE = 1"

definition Update_TYPE :: byte where
  "Update_TYPE = 2"

definition Notification_TYPE :: byte where
  "Notification_TYPE = 3"

definition KeepAlive_TYPE :: byte where
  "KeepAlive_TYPE = 4"

text \<open>
  \<open>unpack('!H', raw)[0]\<close> of the standard library: two bytes, big-endian.
\<close>

definition unpack_H :: "bytes \<Rightarrow> error + int" where
  "unpack_H raw =
     (case raw of
        [hi, lo] \<Rightarrow> Inr (int (unat hi) * 256 + int (unat lo))
      | _ \<Rightarrow> Inl StructError)"

text \<open>
  The loop \<open>while length: ...\<close> that \<open>read_message\<close> runs twice, for the header and
  for the body, with its variables \<open>length\<close> (here \<open>len\<close>) and \<open>data\<close>. It polls the
  connection for as long as nothing is pending, so it may not return: \<open>None\<close> is the
  run that never ends. \<open>self.connection.pending()\<close> is \<open>pending False\<close>.
\<close>

partial_function (option) read_loop ::
  "('c, 'n) env \<Rightarrow> int \<Rightarrow> bytes \<Rightarrow> 'c \<Rightarrow> ((error + bytes) \<times> 'c) option" where
  "read_loop env len data c =
     (if len = 0 then Some (Inr data, c)
      else
        (case pending env False c of
           (p, c1) \<Rightarrow>
             if p then
               (case read env len c1 of
                  (delta, c2) \<Rightarrow>
                    if delta = [] then
                      Some (Inl (Failure (S ''The TCP connection is closed'')), c2)
                    else read_loop env (len - int (length delta)) (data @ delta) c2)
             else read_loop env len data c1))"

declare read_loop.simps [code]

text \<open>
  \<open>read_message\<close>. The result is the exception raised or the message returned, with
  the object after the call.
\<close>

definition read_message ::
  "('c, 'n) env \<Rightarrow> ('c, 'n) protocol \<Rightarrow> ((error + message) \<times> ('c, 'n) protocol) option" where
  "read_message env self =
     (case pending env True (connection self) of
        (p, c0) \<Rightarrow>
          if \<not> p then Some (Inr (NOP None), self\<lparr>connection := c0\<rparr>)
          else
            (case read_loop env 19 [] c0 of
               None \<Rightarrow> None
             | Some (Inl e, c1) \<Rightarrow> Some (Inl e, self\<lparr>connection := c1\<rparr>)
             | Some (Inr data, c1) \<Rightarrow>
                 (let self1 = self\<lparr>connection := c1\<rparr> in
                  if take 16 data \<noteq> MARKER env then
                    Some (Inl (Notify 1 1 (Some (S ''The packet received does not contain a BGP marker''))), self1)
                  else
                    (let raw_length = take 2 (drop 16 data) in
                     case unpack_H raw_length of
                       Inl e \<Rightarrow> Some (Inl e, self1)
                     | Inr len \<Rightarrow>
                         (case drop 18 data of
                            [] \<Rightarrow> Some (Inl IndexError, self1)
                          | msg # _ \<Rightarrow>
                              if len < 19 \<or> len > 4096 then
                                Some (Inl (Notify 1 2 None), self1)
                              else if (msg = Open_TYPE \<and> len < 29) \<or>
                                      (msg = Update_TYPE \<and> len < 23) \<or>
                                      (msg = Notification_TYPE \<and> len < 21) \<or>
                                      (msg = KeepAlive_TYPE \<and> len \<noteq> 19) then
                                Some (Inl (Notify 1 2 (Some (B raw_length))), self1)
                              else
                                (case read_loop env (len - 19) [] c1 of
                                   None \<Rightarrow> None
                                 | Some (Inl e, c2) \<Rightarrow> Some (Inl e, self\<lparr>connection := c2\<rparr>)
                                 | Some (Inr body, c2) \<Rightarrow>
                                     (let self2 = self\<lparr>connection := c2\<rparr> in
                                      if msg = Notification_TYPE then
                                        Some (Inl (Notification body), self2)
                                      else if msg = KeepAlive_TYPE then
                                        Some (Inr KeepAlive, self2)
                                      else if msg = Open_TYPE then
                                        (case open_factory env body of
                                           Inl e \<Rightarrow> Some (Inl e, self2)
                                         | Inr m \<Rightarrow> Some (Inr (Open m), self2))
                                      else if msg = Update_TYPE \<and> parse_routes (neighbor self2) then
                                        (case update_factory env (negociated self2) body of
                                           Inl e \<Rightarrow> Some (Inl e, self2)
                                         | Inr update \<Rightarrow>
                                             if routes update \<noteq> [] then Some (Inr (Update update), self2)
                                             else Some (Inr (NOP (Some msg)), self2))
                                      else Some (Inr (NOP (Some msg)), self2))))))))"

text \<open>
  \<open>read_open\<close>. Its parameters \<open>_open\<close> and \<open>ip\<close> are not read by the body and
  are left out. \<open>message.TYPE == NOP.TYPE\<close> and \<open>message.TYPE != Open.TYPE\<close> are
  tests of the message's class.
\<close>

definition read_open ::
  "('c, 'n) env \<Rightarrow> ('c, 'n) protocol \<Rightarrow> ((error + message) \<times> ('c, 'n) protocol) option" where
  "read_open env self =
     (case read_message env self of
        None \<Rightarrow> None
      | Some (Inl e, self1) \<Rightarrow> Some (Inl e, self1)
      | Some (Inr message, self1) \<Rightarrow>
          (case message of
             NOP t \<Rightarrow> Some (Inr message, self1)
           | Open m \<Rightarrow>
               (let self2 = self1\<lparr>negociated := received env (negociated self1) m\<rparr> in
                if asn4_problem env (negociated self2) then
                  Some (Inl (Notify 2 0 (Some (S ''We have an ASN4 and you do not speak it. bye.''))), self2)
                else if negociated_peer_as env (negociated self2) \<noteq> peer_as (neighbor self2) then
                  Some (Inl (Notify 2 2 (Some (Fmt ''ASN in OPEN (%d) did not match ASN expected (%d)''
                                                [I (asn m), I (peer_as (neighbor self2))]))), self2)
                else if open_msg.router_id m = 0 then
                  Some (Inl (Notify 2 3 (Some (S ''0.0.0.0 is an invalid router_id according to RFC6286''))), self2)
                else if open_msg.router_id m = neighbor.router_id (neighbor self2) \<and>
                        asn m = local_as (neighbor self2) then
                  Some (Inl (Notify 2 3 (Some (Fmt ''BGP Indendifier collision (%s) on IBGP according to RFC 6286''
                                                [Rid (open_msg.router_id m)]))), self2)
                else if open_msg.hold_time m < 3 then
                  Some (Inl (Notify 2 6 (Some (Fmt ''Hold Time is invalid (%d)'' [I (open_msg.hold_time m)]))), self2)
                else
                  (let self3 =
                         (if open_msg.hold_time m \<ge> 3 then
                            self2\<lparr>hold_time := Some (min (neighbor.hold_time (neighbor self2)) (open_msg.hold_time m))\<rparr>
                          else self2)
                   in Some (Inr message, log_message (me self3 (Fmt ''<< %s'' [M message])) self3)))
           | _ \<Rightarrow>
               Some (Inl (Notify 5 1 (Some (Fmt ''The first packet recevied is not an open message (%s)''
                                             [M message]))), self1)))"

subsection \<open>Keepalives\<close>

text \<open>
  \<open>check_keepalive\<close>, with \<open>now\<close> the value of \<open>time.time()\<close>. Adding the unset
  hold time \<open>None\<close> to a float is a \<open>TypeError\<close>.
\<close>

definition check_keepalive :: "('c, 'n) env \<Rightarrow> real \<Rightarrow> ('c, 'n) protocol \<Rightarrow> error + int" where
  "check_keepalive env now self =
     (case hold_time self of
        None \<Rightarrow> Inl TypeError
      | Some h \<Rightarrow>
          (let left = py_int (last_read env (connection self) + real_of_int h - now) in
           if left \<le> 0 then Inl (Notify 4 0 None) else Inr left))"

text \<open>
  Modelled from the spec: \<open>KeepAlive().message()\<close>, the wire form of a KEEPALIVE, of
  the class \<open>KeepAlive\<close> that protocol.py imports. The spec gives a message as the
  16-byte marker, the 2-byte big-endian total length and the type byte, and a KEEPALIVE
  as exactly 19 bytes with an empty body.
\<close>

definition keepalive_message :: "('c, 'n) env \<Rightarrow> bytes" where
  "keepalive_message env = MARKER env @ [0, 19] @ [KeepAlive_TYPE]"

text \<open>
  The parameter \<open>force\<close> takes \<open>None\<close>, \<open>True\<close> or \<open>False\<close>; \<open>truth\<close> is its
  truth value in \<open>if force:\<close>.
\<close>

definition truth :: "bool option \<Rightarrow> bool" where
  "truth force = (case force of None \<Rightarrow> False | Some b \<Rightarrow> b)"

text \<open>
  \<open>new_keepalive\<close>, with \<open>now\<close> the value of \<open>time.time()\<close>. Calling
  \<open>keepalive()\<close> on the unset hold time \<open>None\<close> is an \<open>AttributeError\<close>.
\<close>

definition new_keepalive ::
  "('c, 'n) env \<Rightarrow> real \<Rightarrow> bool option \<Rightarrow> ('c, 'n) protocol \<Rightarrow>
     (error + int \<times> message option) \<times> ('c, 'n) protocol" where
  "new_keepalive env now force self =
     (case hold_time self of
        None \<Rightarrow> (Inl AttributeError, self)
      | Some h \<Rightarrow>
          (let left = py_int (last_write env (connection self) + keepalive env h - now);
               k = KeepAlive;
               m = keepalive_message env
           in
           if truth force then
             (case conn_write env (keepalive_message env) (connection self) of
                (written, c) \<Rightarrow>
                  (let self1 = self\<lparr>connection := c\<rparr> in
                   if \<not> written then
                     (Inr (left, Some k),
                      (log_message (me self1 (S ''|| buffer not yet empty, adding KEEPALIVE to it'')) self1)
                        \<lparr>messages := messages self1 @ [(1, ''KEEPALIVE'', m)]\<rparr>)
                   else
                     (let self2 = self1\<lparr>frozen := 0\<rparr> in
                      (Inr (left, Some k),
                       if force = Some True then
                         log_message (me self2 (S ''>> KEEPALIVE (OPENCONFIRM)'')) self2
                       else if force = Some False then
                         log_message (me self2 (S ''>> KEEPALIVE (no more UPDATE and no EOR)'')) self2
                       else self2))))
           else if left \<le> 0 then
             (case conn_write env (keepalive_message env) (connection self) of
                (written, c) \<Rightarrow>
                  (let self1 = self\<lparr>connection := c\<rparr> in
                   if \<not> written then
                     (Inr (left, Some k),
                      (log_message (me self1 (S ''|| could not send KEEPALIVE, buffering'')) self1)
                        \<lparr>messages := messages self1 @ [(1, ''KEEPALIVE'', m)]\<rparr>)
                   else
                     (Inr (left, Some k),
                      (log_message (me self1 (S ''>> KEEPALIVE'')) self1)\<lparr>frozen := 0\<rparr>)))
           else (Inr (left, None), self)))"

subsection \<open>The backlog\<close>

text \<open>
  \<open>_backlog\<close> and \<open>_announce\<close> are generators. The model runs a generator to its
  end and returns the list of the values it yields, the exception that ends it, if any,
  and the object at that point. The body of the consumer's \<open>for\<close> loop runs at every
  yield; the only thing the loop bodies of protocol.py do to the object is to log, so a
  consumer is given as the lines it logs for a yielded number.

  \<open>backlog_loop\<close> is the loop \<open>while self._messages: ...\<close> of \<open>_backlog\<close>.
\<close>

function backlog_loop ::
  "('c, 'n) env \<Rightarrow> (nat \<Rightarrow> pyval list) \<Rightarrow> ('c, 'n) protocol \<Rightarrow> nat list \<times> ('c, 'n) protocol" where
  "backlog_loop env consumer self =
     (case messages self of
        [] \<Rightarrow> ([], self)
      | (number, name, update) # rest \<Rightarrow>
          (case conn_write env update (connection self) of
             (written, c) \<Rightarrow>
               if \<not> written then
                 ([], log_message (me self (Fmt ''|| failed to send %d %s(s) from buffer'' [I (int number), S name]))
                        (self\<lparr>connection := c\<rparr>))
               else
                 (case backlog_loop env consumer
                         (self\<lparr>connection := c, messages := rest, frozen := 0,
                               logged := logged self @ consumer number\<rparr>) of
                    (ys, self') \<Rightarrow> (number # ys, self'))))"
  by pat_completeness auto
termination
  by (relation "measure (\<lambda>(env, consumer, self). length (messages self))") auto

declare backlog_loop.simps [simp del]

text \<open>
  \<open>_backlog\<close>. The three calls of \<open>time.time()\<close> return \<open>t1\<close> (stored in
  \<open>_frozen\<close>), \<open>t2\<close> (compared with the stall limit) and \<open>t3\<close> (logged). With the
  hold time unset, \<open>self._frozen + (self.hold_time)\<close> and, when that is skipped,
  the \<open>%d\<close> of the log line raise a \<open>TypeError\<close>, both with \<open>_frozen\<close> already
  stored.
\<close>

definition backlog ::
  "('c, 'n) env \<Rightarrow> real \<Rightarrow> real \<Rightarrow> real \<Rightarrow> (nat \<Rightarrow> pyval list) \<Rightarrow> ('c, 'n) protocol \<Rightarrow>
     nat list \<times> error option \<times> ('c, 'n) protocol" where
  "backlog env t1 t2 t3 consumer self =
     (if messages self \<noteq> [] then
        (let self1 = (if frozen self = 0 then self\<lparr>frozen := t1\<rparr> else self) in
         case hold_time self1 of
           None \<Rightarrow> ([], Some TypeError, self1)
         | Some h \<Rightarrow>
             if frozen self1 \<noteq> 0 \<and> frozen self1 + real_of_int h < t2 then
               ([], Some (Failure (Fmt ''peer %s not reading on socket - killing session''
                                     [I (peer_as (neighbor self1))])), self1)
             else
               (let self2 = log_message (me self1 (Fmt ''unable to send route for %d second (maximum allowed %d)''
                                                     [R (t3 - frozen self1), I h])) self1;
                    nb_backlog = length (messages self2)
                in
                if nb_backlog > MAX_BACKLOG then
                  ([], Some (Failure (Fmt ''over %d chunked routes buffered for peer %s - killing session''
                                        [I (int MAX_BACKLOG), I (peer_as (neighbor self2))])), self2)
                else
                  (let self3 = log_message (me self2 (Fmt ''self._messages of %d/%d chunked routes''
                                                        [I (int nb_backlog), I (int MAX_BACKLOG)])) self2
                   in case backlog_loop env consumer self3 of
                        (ys, self4) \<Rightarrow> (ys, None, self4))))
      else
        (case backlog_loop env consumer self of
           (ys, self') \<Rightarrow> (ys, None, self')))"

subsection \<open>Announcing\<close>

text \<open>
  The loop of the \<open>else\<close> branch of \<open>_announce\<close> over the chunks, with its
  variable \<open>sending\<close>.
\<close>

fun announce_send ::
  "('c, 'n) env \<Rightarrow> string \<Rightarrow> (nat \<times> bytes) list \<Rightarrow> bool \<Rightarrow> ('c, 'n) protocol \<Rightarrow>
     nat list \<times> ('c, 'n) protocol" where
  "announce_send env name [] sending self = ([], self)"
| "announce_send env name ((number, update) # chunks) sending self =
     (if sending then
        (case conn_write env update (connection self) of
           (written, c) \<Rightarrow>
             if written then
               (case announce_send env name chunks True
                       (log_message (me self (Fmt ''>> %d %s(s)'' [I (int number), S name]))
                          (self\<lparr>connection := c\<rparr>)) of
                  (ys, self') \<Rightarrow> (number # ys, self'))
             else
               announce_send env name chunks False
                 ((log_message (me self (Fmt ''|| could not send %d %s(s), buffering'' [I (int number), S name]))
                     (self\<lparr>connection := c\<rparr>))
                    \<lparr>messages := messages self @ [(number, name, update)]\<rparr>))
      else
        (case announce_send env name chunks False
                ((log_message (me self (Fmt ''|| buffering the rest of the %s(s) (%d)'' [S name, I (int number)])) self)
                   \<lparr>messages := messages self @ [(number, name, update)]\<rparr>) of
           (ys, self') \<Rightarrow> (0 # ys, self')))"

text \<open>
  The loop of the \<open>if\<close> branch of \<open>_announce\<close> that appends every chunk to the
  backlog.
\<close>

fun announce_buffer ::
  "string \<Rightarrow> (nat \<times> bytes) list \<Rightarrow> ('c, 'n) protocol \<Rightarrow> ('c, 'n) protocol" where
  "announce_buffer name [] self = self"
| "announce_buffer name ((number, update) # chunks) self =
     announce_buffer name chunks
       ((log_message (me self (Fmt ''|| adding %d  %s(s) to existing buffer'' [I (int number), S name])) self)
          \<lparr>messages := messages self @ [(number, name, update)]\<rparr>)"

text \<open>
  \<open>_announce\<close>. \<open>generator\<close> is the finite sequence of fragments; \<open>t1\<close>, \<open>t2\<close>,
  \<open>t3\<close> are the clock readings of the call of \<open>_backlog\<close>. An exception of
  \<open>chunked\<close> ends the loop that consumes it, after the chunks yielded before it
  have been handled.
\<close>

definition announce ::
  "('c, 'n) env \<Rightarrow> real \<Rightarrow> real \<Rightarrow> real \<Rightarrow> string \<Rightarrow> bytes list \<Rightarrow> ('c, 'n) protocol \<Rightarrow>
     nat list \<times> error option \<times> ('c, 'n) protocol" where
  "announce env t1 t2 t3 name generator self =
     (case chunked generator (message_size self) of
        (chunks, raised) \<Rightarrow>
          if messages self \<noteq> [] then
            (let self1 = announce_buffer name chunks self in
             case raised of
               Some e \<Rightarrow> ([], Some e, self1)
             | None \<Rightarrow>
                 backlog env t1 t2 t3
                   (\<lambda>number. [me self1 (Fmt ''>> %d buffered %s(s)'' [I (int number), S name])]) self1)
          else
            (case announce_send env name chunks True self of
               (ys, self1) \<Rightarrow> (ys, raised, self1)))"

text \<open>
  The spec's words for the direct writes of one call (``attempt direct writes in order;
  the first failed write switches mode for the rest of this call''), as a function of
  their own: the byte strings are written in order up to and including the first write
  that fails. The result is the number of writes that succeeded and the connection after
  the last write attempted.
\<close>

fun direct_writes :: "('c, 'n) env \<Rightarrow> bytes list \<Rightarrow> 'c \<Rightarrow> nat \<times> 'c" where
  "direct_writes env [] c = (0, c)"
| "direct_writes env (update # updates) c =
     (case conn_write env update c of
        (written, c') \<Rightarrow>
          if written then
            (case direct_writes env updates c' of (k, c'') \<Rightarrow> (Suc k, c''))
          else (0, c'))"


subsection \<open>A scripted transport\<close>

text \<open>
  A connection that replays a script, to run the definitions on concrete inputs:
  \<open>incoming\<close> are the bytes still to be read, \<open>accepts\<close> the results of the writes
  to come (a write after the script's end fails), \<open>outgoing\<close> the byte strings written
  with success. Data is pending when the peer has closed the connection or
  \<open>incoming\<close> is not empty; a read on the closed connection returns the empty string.
\<close>

record scripted =
  incoming :: bytes
  closed :: bool
  accepts :: "bool list"
  outgoing :: "bytes list"
  read_at :: real
  written_at :: real

definition scripted_write :: "bytes \<Rightarrow> scripted \<Rightarrow> bool \<times> scripted" where
  "scripted_write update c =
     (case accepts c of
        [] \<Rightarrow> (False, c)
      | a # as \<Rightarrow>
          (a, c\<lparr>accepts := as, outgoing := (if a then outgoing c @ [update] else outgoing c)\<rparr>))"

text \<open>
  The body of an OPEN on the wire: version, 2-byte AS number, 2-byte hold time, 4-byte
  identifier, then the optional parameters, which this decoder skips.
\<close>

definition scripted_open :: "bytes \<Rightarrow> error + open_msg" where
  "scripted_open body =
     (case body of
        v # a1 # a0 # h1 # h0 # r3 # r2 # r1 # r0 # _ \<Rightarrow>
          Inr \<lparr>asn = int (unat a1) * 256 + int (unat a0),
               hold_time = int (unat h1) * 256 + int (unat h0),
               router_id = word_of_nat (((unat r3 * 256 + unat r2) * 256 + unat r1) * 256 + unat r0)\<rparr>
      | _ \<Rightarrow> Inl (Notify 2 0 None))"

text \<open>
  The negotiation of the scripted environment keeps the OPEN received last; its peer AS
  is the AS number of that OPEN, and it reports an ASN4 problem when that AS number is
  the placeholder 23456.
\<close>

definition scripted_env :: "(scripted, open_msg option) env" where
  "scripted_env =
     \<lparr>pending = (\<lambda>reset c. (closed c \<or> incoming c \<noteq> [], c)),
      read = (\<lambda>n c. (take (nat n) (incoming c), c\<lparr>incoming := drop (nat n) (incoming c)\<rparr>)),
      conn_write = scripted_write,
      last_read = read_at,
      last_write = written_at,
      MARKER = replicate 16 255,
      open_factory = scripted_open,
      update_factory = (\<lambda>n body. Inr \<lparr>routes = []\<rparr>),
      received = (\<lambda>n m. Some m),
      asn4_problem = (\<lambda>n. case n of None \<Rightarrow> False | Some m \<Rightarrow> asn m = 23456),
      negociated_peer_as = (\<lambda>n. case n of None \<Rightarrow> 0 | Some m \<Rightarrow> asn m),
      keepalive = (\<lambda>h. real_of_int (h div 3))\<rparr>"

definition scripted_neighbor :: neighbor where
  "scripted_neighbor =
     \<lparr>peer_address = ''192.0.2.1'', peer_as = 65001, local_as = 65000,
      router_id = 0x0A000001, hold_time = 180, parse_routes = True\<rparr>"

text \<open>
  The object as \<open>__init__\<close> leaves it, on a scripted connection.
\<close>

definition scripted_protocol :: "scripted \<Rightarrow> (scripted, open_msg option) protocol" where
  "scripted_protocol c =
     \<lparr>neighbor = scripted_neighbor, connection = c, negociated = None, messages = [],
      frozen = 0, message_size = 4096 - 19, hold_time = None, logged = []\<rparr>"

text \<open>
  A connection with nothing to read, on which every write fails, and the clock values
  of the last read and the last write at 0.
\<close>

definition scripted_idle :: scripted where
  "scripted_idle =
     \<lparr>incoming = [], closed = False, accepts = [], outgoing = [], read_at = 0, written_at = 0\<rparr>"

text \<open>
  The bytes of an OPEN of 29 bytes, with no optional parameters: marker, length, type 1,
  version 4, AS number, hold time, identifier.
\<close>

definition open_wire :: "byte \<Rightarrow> byte \<Rightarrow> byte \<Rightarrow> byte \<Rightarrow> byte \<Rightarrow> byte \<Rightarrow> byte \<Rightarrow> byte \<Rightarrow> bytes" where
  "open_wire a1 a0 h1 h0 r3 r2 r1 r0 =
     replicate 16 255 @ [0, 29, 1] @ [4, a1, a0, h1, h0, r3, r2, r1, r0, 0]"


section \<open>Properties\<close>

subsection \<open>Chunking\<close>

lemma chunked_loop_within:
  "\<forall>d \<in> set g. length d \<le> sz \<Longrightarrow> length chunk \<le> sz \<Longrightarrow>
   snd (chunked_loop g sz chunk n) = None \<and>
   concat (map snd (fst (chunked_loop g sz chunk n))) = chunk @ concat g \<and>
   (\<forall>c \<in> set (fst (chunked_loop g sz chunk n)). length (snd c) \<le> sz)"
proof (induction g arbitrary: chunk n)
  case Nil
  then show ?case by simp
next
  case (Cons d g)
  have d: "length d \<le> sz" and g: "\<forall>d \<in> set g. length d \<le> sz"
    using Cons.prems(1) by simp_all
  show ?case
  proof (cases "length chunk + length d \<le> sz")
    case True
    then have "length (chunk @ d) \<le> sz" by simp
    from Cons.IH [OF g this, of "n + 1"] d True show ?thesis by simp
  next
    case False
    from Cons.IH [OF g d, of 1] d False Cons.prems(2) show ?thesis
      by (cases "chunked_loop g sz d 1") simp
  qed
qed

lemma chunked_loop_oversize:
  "\<exists>d \<in> set g. sz < length d \<Longrightarrow>
   snd (chunked_loop g sz chunk n) =
     Some (Failure (Fmt ''Can not send BGP update larger than %d bytes on this connection.'' [I (int sz)]))"
proof (induction g arbitrary: chunk n)
  case Nil
  then show ?case by simp
next
  case (Cons d g)
  show ?case
  proof (cases "sz < length d")
    case True
    then show ?thesis by simp
  next
    case False
    with Cons.prems have g: "\<exists>d \<in> set g. sz < length d" by simp
    from Cons.IH [OF g, of d 1] Cons.IH [OF g, of "chunk @ d" "n + 1"] False show ?thesis
      by (cases "chunked_loop g sz d 1") simp
  qed
qed

lemma chunked_loop_positive:
  "chunk = [] \<or> 0 < n \<Longrightarrow>
   \<forall>c \<in> set (fst (chunked_loop g sz chunk n)). 0 < fst c \<and> snd c \<noteq> []"
proof (induction g arbitrary: chunk n)
  case Nil
  then show ?case by auto
next
  case (Cons d g)
  show ?case
  proof (cases "sz < length d")
    case True
    then show ?thesis by simp
  next
    case False
    note d = this
    show ?thesis
    proof (cases "length chunk + length d \<le> sz")
      case True
      have "chunk @ d = [] \<or> 0 < n + 1" by simp
      from Cons.IH [OF this] d True show ?thesis by simp
    next
      case False
      then have ne: "chunk \<noteq> []" using d by auto
      have "d = [] \<or> 0 < (1::nat)" by simp
      from Cons.IH [OF this] d False ne Cons.prems show ?thesis
        by (cases "chunked_loop g sz d 1") auto
    qed
  qed
qed

text \<open>
  C4. When every fragment is at most \<open>sz\<close> bytes long, \<open>chunked\<close> ends without
  an exception, the chunks it yields, concatenated in yield order, are the concatenation
  of the fragments in their order, and every chunk is at most \<open>sz\<close> bytes long. When
  some fragment is longer than \<open>sz\<close>, the iteration ends with a \<open>Failure\<close>.
\<close>

theorem chunked_concat:
  "((\<forall>d \<in> set generator. length d \<le> sz) \<longrightarrow>
      snd (chunked generator sz) = None \<and>
      concat (map snd (fst (chunked generator sz))) = concat generator \<and>
      (\<forall>c \<in> set (fst (chunked generator sz)). length (snd c) \<le> sz)) \<and>
   ((\<exists>d \<in> set generator. sz < length d) \<longrightarrow>
      (\<exists>f. snd (chunked generator sz) = Some (Failure f)))"
  using chunked_loop_within [of generator sz "[]" 0] chunked_loop_oversize [of generator sz "[]" 0]
  by (simp add: chunked_def)

theorem chunked_concat_witness:
  "chunked [[1, 2], [3], [4, 5, 6], [7]] 3 = ([(2, [1, 2, 3]), (1, [4, 5, 6]), (1, [7])], None) \<and>
   concat (map snd (fst (chunked [[1, 2], [3], [4, 5, 6], [7]] 3))) = [1, 2, 3, 4, 5, 6, 7] \<and>
   list_all (\<lambda>c. length (snd c) \<le> 3) (fst (chunked [[1, 2], [3], [4, 5, 6], [7]] 3)) \<and>
   (\<exists>f. snd (chunked [[1, 2], [3, 4, 5, 6]] 3) = Some (Failure f))"
  using chunked_concat [of "[[1, 2], [3], [4, 5, 6], [7]]" 3] chunked_concat [of "[[1, 2], [3, 4, 5, 6]]" 3]
  by (simp add: chunked_def)

subsection \<open>Keepalives\<close>

lemma py_int_le_0: "py_int x \<le> 0 \<longleftrightarrow> x < 1"
  unfolding py_int_def by (auto simp: floor_le_iff ceiling_le_iff)

text \<open>
  C8, as amended. With the hold time set, \<open>check_keepalive\<close> raises \<open>Notify(4,0)\<close>
  exactly when \<open>last_read + hold_time - now\<close> is less than one second, that is when
  the whole number of seconds left, truncated towards zero, is not positive; otherwise it
  returns that whole number of seconds, which is positive.
\<close>

theorem check_keepalive_truncated:
  assumes "protocol.hold_time self = Some h"
  shows "(check_keepalive env now self = Inl (Notify 4 0 None) \<longleftrightarrow>
           last_read env (connection self) + real_of_int h - now < 1) \<and>
         (\<not> last_read env (connection self) + real_of_int h - now < 1 \<longrightarrow>
           check_keepalive env now self = Inr (py_int (last_read env (connection self) + real_of_int h - now)) \<and>
           0 < py_int (last_read env (connection self) + real_of_int h - now))"
  using assms py_int_le_0 [of "last_read env (connection self) + real_of_int h - now"]
  by (auto simp: check_keepalive_def Let_def)

theorem check_keepalive_truncated_witness:
  "protocol.hold_time ((scripted_protocol scripted_idle)\<lparr>hold_time := Some 3\<rparr>) = Some 3 \<and>
   check_keepalive scripted_env (5 / 2) ((scripted_protocol scripted_idle)\<lparr>hold_time := Some 3\<rparr>)
     = Inl (Notify 4 0 None) \<and>
   check_keepalive scripted_env 1 ((scripted_protocol scripted_idle)\<lparr>hold_time := Some 3\<rparr>) = Inr 2"
  using check_keepalive_truncated [of "(scripted_protocol scripted_idle)\<lparr>hold_time := Some 3\<rparr>" 3 scripted_env "5 / 2"]
    check_keepalive_truncated [of "(scripted_protocol scripted_idle)\<lparr>hold_time := Some 3\<rparr>" 3 scripted_env 1]
  by (simp add: scripted_protocol_def scripted_idle_def scripted_env_def py_int_def)

text \<open>
  C8 as stated fails: with the last read at 0, a hold time of 3 and the clock at 2.5, the
  hold time has not run out (\<open>0 + 3 \<le> 2.5\<close> is false), and \<open>check_keepalive\<close>
  raises \<open>Notify(4,0)\<close>.
\<close>

theorem check_keepalive_counterexample:
  "check_keepalive scripted_env (5 / 2) ((scripted_protocol scripted_idle)\<lparr>hold_time := Some 3\<rparr>)
     = Inl (Notify 4 0 None) \<and>
   \<not> (last_read scripted_env (connection ((scripted_protocol scripted_idle)\<lparr>hold_time := Some 3\<rparr>))
        + real_of_int 3 \<le> 5 / 2)"
  by (simp add: check_keepalive_def scripted_protocol_def scripted_idle_def scripted_env_def py_int_def)

text \<open>
  C10. For every environment, clock value and object, \<open>new_keepalive\<close> with
  \<open>force=False\<close> gives the result and the object that it gives with \<open>force=None\<close>;
  and for no value of \<open>force\<close> does \<open>new_keepalive\<close>, started on an empty log, log
  the line of the arm \<open>elif force == False\<close>.
\<close>

theorem new_keepalive_force_False:
  "new_keepalive env now (Some False) self = new_keepalive env now None self \<and>
   (\<forall>force. me self (S ''>> KEEPALIVE (no more UPDATE and no EOR)'')
      \<notin> set (logged (snd (new_keepalive env now force (self\<lparr>logged := []\<rparr>)))))"
proof
  show "new_keepalive env now (Some False) self = new_keepalive env now None self"
    by (simp add: new_keepalive_def truth_def split: option.splits)
next
  show "\<forall>force. me self (S ''>> KEEPALIVE (no more UPDATE and no EOR)'')
      \<notin> set (logged (snd (new_keepalive env now force (self\<lparr>logged := []\<rparr>))))"
  proof
    fix force
    show "me self (S ''>> KEEPALIVE (no more UPDATE and no EOR)'')
      \<notin> set (logged (snd (new_keepalive env now force (self\<lparr>logged := []\<rparr>))))"
      by (cases force) (auto simp: new_keepalive_def truth_def Let_def me_def log_message_def
          split: option.splits prod.splits)
  qed
qed

subsection \<open>The backlog\<close>



subsection \<open>Reading from the network\<close>

text \<open>
  \<open>read_message\<close> changes nothing of the object but the connection.
\<close>

lemma read_message_connection:
  "read_message env self = Some (r, self') \<Longrightarrow> \<exists>c. self' = self\<lparr>connection := c\<rparr>"
  unfolding read_message_def Let_def
  by (auto split: prod.splits if_splits option.splits sum.splits list.splits)

text \<open>
  The scripted environment, field by field, and the read loop on a scripted connection
  that holds the bytes asked for.
\<close>

lemma scripted_env_simps:
  "pending scripted_env reset c = (closed c \<or> incoming c \<noteq> [], c)"
  "read scripted_env n c = (take (nat n) (incoming c), c\<lparr>incoming := drop (nat n) (incoming c)\<rparr>)"
  "conn_write scripted_env = scripted_write"
  "last_read scripted_env = read_at"
  "last_write scripted_env = written_at"
  "MARKER scripted_env = replicate 16 255"
  "open_factory scripted_env = scripted_open"
  "update_factory scripted_env g body = Inr \<lparr>routes = []\<rparr>"
  "received scripted_env g m = Some m"
  "asn4_problem scripted_env g = (case g of None \<Rightarrow> False | Some m \<Rightarrow> asn m = 23456)"
  "negociated_peer_as scripted_env g = (case g of None \<Rightarrow> 0 | Some m \<Rightarrow> asn m)"
  "keepalive scripted_env h = real_of_int (h div 3)"
  by (simp_all add: scripted_env_def)

lemma read_loop_done: "read_loop env 0 data c = Some (Inr data, c)"
  by (subst read_loop.simps) simp

lemma read_loop_scripted:
  assumes "0 < n" and "nat n \<le> length (incoming c)"
  shows "read_loop scripted_env n data c =
           Some (Inr (data @ take (nat n) (incoming c)), c\<lparr>incoming := drop (nat n) (incoming c)\<rparr>)"
proof -
  from assms have ne: "incoming c \<noteq> []" by auto
  from assms have len: "int (length (take (nat n) (incoming c))) = n" by simp
  show ?thesis
    using assms ne
    by (subst read_loop.simps) (simp add: scripted_env_simps read_loop_done)
qed

lemma read_message_scripted_open:
  assumes "incoming (connection self) =
             replicate 16 255 @ [0, 29, 1] @ [v, a1, a0, h1, h0, r3, r2, r1, r0, z]"
  shows "read_message scripted_env self =
           Some (Inr (Open \<lparr>asn = int (unat a1) * 256 + int (unat a0),
                            hold_time = int (unat h1) * 256 + int (unat h0),
                            router_id = word_of_nat (((unat r3 * 256 + unat r2) * 256 + unat r1) * 256 + unat r0)\<rparr>),
                 self\<lparr>connection := (connection self)\<lparr>incoming := []\<rparr>\<rparr>)"
  using assms
  by (simp add: read_message_def scripted_env_simps read_loop_scripted read_loop_done unpack_H_def
      Open_TYPE_def Update_TYPE_def Notification_TYPE_def KeepAlive_TYPE_def scripted_open_def Let_def)

lemma read_message_open_wire:
  "read_message scripted_env (self\<lparr>connection := scripted_idle\<lparr>incoming := open_wire a1 a0 h1 h0 r3 r2 r1 r0\<rparr>\<rparr>) =
     Some (Inr (Open \<lparr>asn = int (unat a1) * 256 + int (unat a0),
                      hold_time = int (unat h1) * 256 + int (unat h0),
                      router_id = word_of_nat (((unat r3 * 256 + unat r2) * 256 + unat r1) * 256 + unat r0)\<rparr>),
           self\<lparr>connection := scripted_idle\<rparr>)"
  by (simp add: read_message_scripted_open [where v = 4 and z = 0] open_wire_def scripted_idle_def)

lemma scripted_protocol_connection:
  "(scripted_protocol c0)\<lparr>connection := c\<rparr> = scripted_protocol c"
  by (simp add: scripted_protocol_def)

text \<open>
  What \<open>read_message\<close> does with a header of 19 bytes whose marker is right: a length
  outside 19..4096 is rejected with \<open>Notify(1,2)\<close> and no data, a length inside that
  range that breaks the minimum of the message type with \<open>Notify(1,2,raw_length)\<close>.
  In both cases the connection is as the read of the header left it.
\<close>

lemma read_message_length_out_of_range:
  assumes "pending env True (connection self) = (True, c0)"
    and "read_loop env 19 [] c0 = Some (Inr (MARKER env @ [hi, lo, msg]), c1)"
    and "length (MARKER env) = 16"
    and "int (unat hi) * 256 + int (unat lo) < 19 \<or> 4096 < int (unat hi) * 256 + int (unat lo)"
  shows "read_message env self = Some (Inl (Notify 1 2 None), self\<lparr>connection := c1\<rparr>)"
  using assms by (simp add: read_message_def unpack_H_def)

lemma read_message_type_minimum:
  assumes "pending env True (connection self) = (True, c0)"
    and "read_loop env 19 [] c0 = Some (Inr (MARKER env @ [hi, lo, msg]), c1)"
    and "length (MARKER env) = 16"
    and "19 \<le> int (unat hi) * 256 + int (unat lo)" and "int (unat hi) * 256 + int (unat lo) \<le> 4096"
    and "(msg = Open_TYPE \<and> int (unat hi) * 256 + int (unat lo) < 29) \<or>
         (msg = Update_TYPE \<and> int (unat hi) * 256 + int (unat lo) < 23) \<or>
         (msg = Notification_TYPE \<and> int (unat hi) * 256 + int (unat lo) < 21) \<or>
         (msg = KeepAlive_TYPE \<and> int (unat hi) * 256 + int (unat lo) \<noteq> 19)"
  shows "read_message env self = Some (Inl (Notify 1 2 (Some (B [hi, lo]))), self\<lparr>connection := c1\<rparr>)"
  using assms by (simp add: read_message_def unpack_H_def)

lemma read_message_scripted_header:
  assumes "incoming (connection self) = replicate 16 255 @ [hi, lo, msg] @ rest"
  shows "pending scripted_env True (connection self) = (True, connection self)"
    and "read_loop scripted_env 19 [] (connection self) =
           Some (Inr (MARKER scripted_env @ [hi, lo, msg]), (connection self)\<lparr>incoming := rest\<rparr>)"
  using assms by (simp_all add: scripted_env_simps read_loop_scripted)

text \<open>
  C2. The header of a KEEPALIVE with the length field 18, followed by two more bytes:
  \<open>read_message\<close> raises \<open>Notify(1,2)\<close> with the two bytes still unread, and the
  rejection carries no data, where the specification has it carry the two length bytes.
\<close>

theorem read_message_short_keepalive:
  "read_message scripted_env
     (scripted_protocol (scripted_idle\<lparr>incoming := replicate 16 255 @ [0, 18, 4] @ [9, 9]\<rparr>)) =
   Some (Inl (Notify 1 2 None), scripted_protocol (scripted_idle\<lparr>incoming := [9, 9]\<rparr>))"
  using read_message_length_out_of_range
    [OF read_message_scripted_header [where hi = 0 and lo = 18 and msg = 4 and rest = "[9, 9]"
        and self = "scripted_protocol (scripted_idle\<lparr>incoming := replicate 16 255 @ [0, 18, 4] @ [9, 9]\<rparr>)"]]
  by (simp add: scripted_env_simps scripted_protocol_def)

text \<open>
  C3. The header of an OPEN with the length field 18, which is below the minimum 29 of
  an OPEN: \<open>read_message\<close> raises \<open>Notify(1,2)\<close> without data, where the
  specification has the rejection carry the two length bytes.
\<close>

theorem read_message_short_open:
  "read_message scripted_env
     (scripted_protocol (scripted_idle\<lparr>incoming := replicate 16 255 @ [0, 18, 1] @ [4, 0xFD, 0xE9]\<rparr>)) =
   Some (Inl (Notify 1 2 None), scripted_protocol (scripted_idle\<lparr>incoming := [4, 0xFD, 0xE9]\<rparr>))"
  using read_message_length_out_of_range
    [OF read_message_scripted_header [where hi = 0 and lo = 18 and msg = 1 and rest = "[4, 0xFD, 0xE9]"
        and self = "scripted_protocol (scripted_idle\<lparr>incoming := replicate 16 255 @ [0, 18, 1] @ [4, 0xFD, 0xE9]\<rparr>)"]]
  by (simp add: scripted_env_simps scripted_protocol_def)

text \<open>
  C1. When \<open>read_message\<close> returns an OPEN to \<open>read_open\<close>, the OPEN is recorded
  with \<open>received\<close> and then checked in this order: an ASN4 problem raises
  \<open>Notify(2,0)\<close>; else a peer AS of the negotiation that differs from the configured
  peer AS raises \<open>Notify(2,2)\<close>; else the router identifier 0.0.0.0 raises
  \<open>Notify(2,3)\<close>; else a router identifier equal to the local one together with an AS
  number equal to the local AS raises \<open>Notify(2,3)\<close>; else a hold time below 3 raises
  \<open>Notify(2,6)\<close>; else the OPEN is returned and the hold time of the session is the
  minimum of the configured hold time and the hold time of the OPEN.
\<close>

theorem read_open_validation:
  assumes "read_message env self = Some (Inr (Open m), self1)"
  shows "let n = received env (negociated self) m;
             nb = neighbor self;
             self2 = self1\<lparr>negociated := n\<rparr>
         in (asn4_problem env n \<longrightarrow>
               (\<exists>d. read_open env self = Some (Inl (Notify 2 0 d), self2))) \<and>
            (\<not> asn4_problem env n \<and> negociated_peer_as env n \<noteq> peer_as nb \<longrightarrow>
               (\<exists>d. read_open env self = Some (Inl (Notify 2 2 d), self2))) \<and>
            (\<not> asn4_problem env n \<and> negociated_peer_as env n = peer_as nb \<and>
             open_msg.router_id m = 0 \<longrightarrow>
               (\<exists>d. read_open env self = Some (Inl (Notify 2 3 d), self2))) \<and>
            (\<not> asn4_problem env n \<and> negociated_peer_as env n = peer_as nb \<and>
             open_msg.router_id m \<noteq> 0 \<and>
             open_msg.router_id m = neighbor.router_id nb \<and> asn m = local_as nb \<longrightarrow>
               (\<exists>d. read_open env self = Some (Inl (Notify 2 3 d), self2))) \<and>
            (\<not> asn4_problem env n \<and> negociated_peer_as env n = peer_as nb \<and>
             open_msg.router_id m \<noteq> 0 \<and>
             \<not> (open_msg.router_id m = neighbor.router_id nb \<and> asn m = local_as nb) \<and>
             open_msg.hold_time m < 3 \<longrightarrow>
               (\<exists>d. read_open env self = Some (Inl (Notify 2 6 d), self2))) \<and>
            (\<not> asn4_problem env n \<and> negociated_peer_as env n = peer_as nb \<and>
             open_msg.router_id m \<noteq> 0 \<and>
             \<not> (open_msg.router_id m = neighbor.router_id nb \<and> asn m = local_as nb) \<and>
             \<not> open_msg.hold_time m < 3 \<longrightarrow>
               (\<exists>self3. read_open env self = Some (Inr (Open m), self3) \<and>
                  protocol.hold_time self3 = Some (min (neighbor.hold_time nb) (open_msg.hold_time m))))"
proof -
  from read_message_connection [OF assms] obtain c where c: "self1 = self\<lparr>connection := c\<rparr>" ..
  show ?thesis
    using assms unfolding c read_open_def Let_def
    by (simp add: log_message_def)
qed

theorem read_open_validation_witness:
  "read_message scripted_env
       (scripted_protocol (scripted_idle\<lparr>incoming := open_wire 0xFD 0xE9 0 3 10 0 0 2\<rparr>))
     = Some (Inr (Open \<lparr>asn = 65001, hold_time = 3, router_id = 0x0A000002\<rparr>),
             scripted_protocol scripted_idle) \<and>
   (\<exists>self3. read_open scripted_env
       (scripted_protocol (scripted_idle\<lparr>incoming := open_wire 0xFD 0xE9 0 3 10 0 0 2\<rparr>))
       = Some (Inr (Open \<lparr>asn = 65001, hold_time = 3, router_id = 0x0A000002\<rparr>), self3) \<and>
       protocol.hold_time self3 = Some 3) \<and>
   (\<exists>d self2. read_open scripted_env
       (scripted_protocol (scripted_idle\<lparr>incoming := open_wire 0xFD 0xE9 0 2 10 0 0 2\<rparr>))
       = Some (Inl (Notify 2 6 d), self2)) \<and>
   (\<exists>d self2. read_open scripted_env
       (scripted_protocol (scripted_idle\<lparr>incoming := open_wire 0xFD 0xE9 0 3 0 0 0 0\<rparr>))
       = Some (Inl (Notify 2 3 d), self2)) \<and>
   (\<exists>d self2. read_open scripted_env
       ((scripted_protocol (scripted_idle\<lparr>incoming := open_wire 0xFD 0xE8 0 3 10 0 0 1\<rparr>))
          \<lparr>neighbor := scripted_neighbor\<lparr>peer_as := 65000\<rparr>\<rparr>)
       = Some (Inl (Notify 2 3 d), self2)) \<and>
   (\<exists>d self2. read_open scripted_env
       (scripted_protocol (scripted_idle\<lparr>incoming := open_wire 0xFD 0xEA 0 3 10 0 0 2\<rparr>))
       = Some (Inl (Notify 2 2 d), self2)) \<and>
   (\<exists>d self2. read_open scripted_env
       (scripted_protocol (scripted_idle\<lparr>incoming := open_wire 0x5B 0xA0 0 3 10 0 0 2\<rparr>))
       = Some (Inl (Notify 2 0 d), self2))"
proof -
  show ?thesis
    apply (intro conjI)
    subgoal
      using read_message_open_wire [of 253 233 0 3 10 0 0 2 "scripted_protocol scripted_idle"]
      by (simp add: scripted_protocol_def)
    subgoal
      using read_open_validation [OF read_message_open_wire [of 253 233 0 3 10 0 0 2 "scripted_protocol scripted_idle"]]
      by (auto simp: Let_def scripted_env_simps scripted_protocol_def scripted_neighbor_def)
    subgoal
      using read_open_validation [OF read_message_open_wire [of 253 233 0 2 10 0 0 2 "scripted_protocol scripted_idle"]]
      by (auto simp: Let_def scripted_env_simps scripted_protocol_def scripted_neighbor_def)
    subgoal
      using read_open_validation [OF read_message_open_wire [of 253 233 0 3 0 0 0 0 "scripted_protocol scripted_idle"]]
      by (auto simp: Let_def scripted_env_simps scripted_protocol_def scripted_neighbor_def)
    subgoal
      using read_open_validation [OF read_message_open_wire [of 253 232 0 3 10 0 0 1 "(scripted_protocol scripted_idle)\<lparr>neighbor := scripted_neighbor\<lparr>peer_as := 65000\<rparr>\<rparr>"]]
      by (auto simp: Let_def scripted_env_simps scripted_protocol_def scripted_neighbor_def)
    subgoal
      using read_open_validation [OF read_message_open_wire [of 253 234 0 3 10 0 0 2 "scripted_protocol scripted_idle"]]
      by (auto simp: Let_def scripted_env_simps scripted_protocol_def scripted_neighbor_def)
    subgoal
      using read_open_validation [OF read_message_open_wire [of 91 160 0 3 10 0 0 2 "scripted_protocol scripted_idle"]]
      by (auto simp: Let_def scripted_env_simps scripted_protocol_def scripted_neighbor_def)
    done
qed

text \<open>
  C9. When \<open>read_message\<close> returns an OPEN to \<open>read_open\<close>, the negotiated state
  after \<open>read_open\<close> is the one that \<open>received\<close> gives for that OPEN, whether
  \<open>read_open\<close> raises or returns; when it raises, the hold time of the session is
  what it was before the call, and when it returns, the hold time is the minimum of the
  configured hold time and the hold time of the OPEN.
\<close>

theorem read_open_records_before_validating:
  assumes "read_message env self = Some (Inr (Open m), self1)"
  shows "\<exists>r self2. read_open env self = Some (r, self2) \<and>
           negociated self2 = received env (negociated self) m \<and>
           (case r of
              Inl e \<Rightarrow> protocol.hold_time self2 = protocol.hold_time self
            | Inr message \<Rightarrow>
                message = Open m \<and>
                protocol.hold_time self2 =
                  Some (min (neighbor.hold_time (neighbor self)) (open_msg.hold_time m)))"
proof -
  from read_message_connection [OF assms] obtain c where c: "self1 = self\<lparr>connection := c\<rparr>" ..
  show ?thesis
    using assms unfolding c read_open_def Let_def
    by (simp add: log_message_def)
qed

theorem read_open_records_before_validating_witness:
  "read_message scripted_env
       (scripted_protocol (scripted_idle\<lparr>incoming := open_wire 0xFD 0xE9 0 2 10 0 0 2\<rparr>))
     = Some (Inr (Open \<lparr>asn = 65001, hold_time = 2, router_id = 0x0A000002\<rparr>),
             scripted_protocol scripted_idle) \<and>
   (\<exists>d self2. read_open scripted_env
       (scripted_protocol (scripted_idle\<lparr>incoming := open_wire 0xFD 0xE9 0 2 10 0 0 2\<rparr>))
       = Some (Inl (Notify 2 6 d), self2) \<and>
       negociated self2 = Some \<lparr>asn = 65001, hold_time = 2, router_id = 0x0A000002\<rparr> \<and>
       protocol.hold_time self2 = None)"
proof -
  let ?X = "scripted_protocol (scripted_idle\<lparr>incoming := open_wire 0xFD 0xE9 0 2 10 0 0 2\<rparr>)"
  let ?m = "\<lparr>asn = 65001, hold_time = 2, router_id = 0x0A000002\<rparr>"
  have rm: "read_message scripted_env ?X = Some (Inr (Open ?m), scripted_protocol scripted_idle)"
    using read_message_open_wire [of 253 233 0 2 10 0 0 2 "scripted_protocol scripted_idle"]
    by (simp add: scripted_protocol_connection)
  have ev: "read_open scripted_env ?X =
              Some (Inl (Notify 2 6 (Some (Fmt ''Hold Time is invalid (%d)'' [I 2]))),
                    (scripted_protocol scripted_idle)\<lparr>negociated := Some ?m\<rparr>)"
    by (simp add: read_open_def rm scripted_env_simps)
       (simp add: scripted_protocol_def scripted_neighbor_def)
  from read_open_records_before_validating [OF rm] obtain r self2
    where r: "read_open scripted_env ?X = Some (r, self2)"
      and n: "negociated self2 = received scripted_env (negociated ?X) ?m"
      and h: "case r of Inl e \<Rightarrow> protocol.hold_time self2 = protocol.hold_time ?X
              | Inr message \<Rightarrow> message = Open ?m \<and>
                  protocol.hold_time self2 =
                    Some (min (neighbor.hold_time (neighbor ?X)) (open_msg.hold_time ?m))"
    by blast
  from r ev have "r = Inl (Notify 2 6 (Some (Fmt ''Hold Time is invalid (%d)'' [I 2])))" by simp
  with r n h rm show ?thesis
    by (simp add: scripted_env_simps scripted_protocol_def)
qed

subsection \<open>Announcing on an empty backlog\<close>

lemma announce_send_buffering:
  "fst (announce_send env name chunks False self) = replicate (length chunks) 0 \<and>
   messages (snd (announce_send env name chunks False self)) =
     messages self @ map (\<lambda>(number, update). (number, name, update)) chunks \<and>
   connection (snd (announce_send env name chunks False self)) = connection self \<and>
   frozen (snd (announce_send env name chunks False self)) = frozen self"
proof (induction chunks arbitrary: self)
  case Nil
  show ?case by simp
next
  case (Cons chunk chunks)
  obtain number update where chunk: "chunk = (number, update)" by (cases chunk)
  let ?self = "(log_message (me self (Fmt ''|| buffering the rest of the %s(s) (%d)'' [S name, I (int number)])) self)
                 \<lparr>messages := messages self @ [(number, name, update)]\<rparr>"
  from Cons.IH [of ?self] show ?case
    by (simp add: chunk log_message_def case_prod_beta)
qed

lemma announce_send_sending:
  "fst (announce_send env name chunks True self) =
     map fst (take (fst (direct_writes env (map snd chunks) (connection self))) chunks) @
     replicate (length chunks - Suc (fst (direct_writes env (map snd chunks) (connection self)))) 0 \<and>
   messages (snd (announce_send env name chunks True self)) =
     messages self @ map (\<lambda>(number, update). (number, name, update))
       (drop (fst (direct_writes env (map snd chunks) (connection self))) chunks) \<and>
   connection (snd (announce_send env name chunks True self)) =
     snd (direct_writes env (map snd chunks) (connection self)) \<and>
   frozen (snd (announce_send env name chunks True self)) = frozen self"
proof (induction chunks arbitrary: self)
  case Nil
  show ?case by simp
next
  case (Cons chunk chunks)
  obtain number update where chunk: "chunk = (number, update)" by (cases chunk)
  obtain written c where w: "conn_write env update (connection self) = (written, c)"
    by (cases "conn_write env update (connection self)")
  show ?case
  proof (cases written)
    case True
    let ?self = "log_message (me self (Fmt ''>> %d %s(s)'' [I (int number), S name])) (self\<lparr>connection := c\<rparr>)"
    from Cons.IH [of ?self] True show ?thesis
      by (simp add: chunk w log_message_def case_prod_beta)
  next
    case False
    let ?self = "(log_message (me self (Fmt ''|| could not send %d %s(s), buffering'' [I (int number), S name]))
                    (self\<lparr>connection := c\<rparr>))\<lparr>messages := messages self @ [(number, name, update)]\<rparr>"
    from announce_send_buffering [of env name chunks ?self] False show ?thesis
      by (simp add: chunk w log_message_def case_prod_beta)
  qed
qed

text \<open>
  C5, as amended. When \<open>_announce\<close> starts with an empty backlog, the chunks are
  written in order up to the first write that fails. With \<open>k\<close> the number of writes
  that succeed: the first \<open>k\<close> chunks yield their counts, which are positive; the chunk
  whose write failed and every chunk after it are appended to the backlog, in order, and
  no write is attempted for the later ones; the chunk whose write failed yields nothing,
  and every chunk after it yields 0.
\<close>

theorem announce_empty_backlog:
  assumes "messages self = []"
  shows "let chunks = fst (chunked generator (message_size self));
             k = fst (direct_writes env (map snd chunks) (connection self));
             result = announce env t1 t2 t3 name generator self
         in fst result = map fst (take k chunks) @ replicate (length chunks - Suc k) 0 \<and>
            (\<forall>number \<in> set (map fst (take k chunks)). 0 < number) \<and>
            fst (snd result) = snd (chunked generator (message_size self)) \<and>
            messages (snd (snd result)) =
              map (\<lambda>(number, update). (number, name, update)) (drop k chunks) \<and>
            connection (snd (snd result)) =
              snd (direct_writes env (map snd chunks) (connection self))"
proof -
  have pos: "\<forall>c \<in> set (fst (chunked generator (message_size self))). 0 < fst c"
    using chunked_loop_positive [of "[]" 0 generator "message_size self"]
    by (simp add: chunked_def)
  have "\<forall>c \<in> set (take k (fst (chunked generator (message_size self)))). 0 < fst c" for k
    using pos by (meson in_set_takeD)
  then show ?thesis
    using assms announce_send_sending [of env name "fst (chunked generator (message_size self))" self]
    by (simp add: announce_def Let_def case_prod_beta)
qed

theorem announce_empty_backlog_witness:
  "messages ((scripted_protocol (scripted_idle\<lparr>accepts := [True, False]\<rparr>))\<lparr>message_size := 3\<rparr>) = [] \<and>
   fst (announce scripted_env 0 0 0 ''UPDATE'' [[1, 2], [3], [4, 5, 6], [7], [8, 9, 10]]
          ((scripted_protocol (scripted_idle\<lparr>accepts := [True, False]\<rparr>))\<lparr>message_size := 3\<rparr>))
     = [2, 0, 0] \<and>
   messages (snd (snd (announce scripted_env 0 0 0 ''UPDATE'' [[1, 2], [3], [4, 5, 6], [7], [8, 9, 10]]
          ((scripted_protocol (scripted_idle\<lparr>accepts := [True, False]\<rparr>))\<lparr>message_size := 3\<rparr>))))
     = [(1, ''UPDATE'', [4, 5, 6]), (1, ''UPDATE'', [7]), (1, ''UPDATE'', [8, 9, 10])] \<and>
   outgoing (connection (snd (snd (announce scripted_env 0 0 0 ''UPDATE'' [[1, 2], [3], [4, 5, 6], [7], [8, 9, 10]]
          ((scripted_protocol (scripted_idle\<lparr>accepts := [True, False]\<rparr>))\<lparr>message_size := 3\<rparr>)))))
     = [[1, 2, 3]]"
  using announce_empty_backlog [of "(scripted_protocol (scripted_idle\<lparr>accepts := [True, False]\<rparr>))\<lparr>message_size := 3\<rparr>"
      "[[1, 2], [3], [4, 5, 6], [7], [8, 9, 10]]" scripted_env 0 0 0 "''UPDATE''"]
  by (simp add: Let_def chunked_def scripted_env_simps scripted_write_def scripted_protocol_def scripted_idle_def)

text \<open>
  C5 as stated fails: one fragment, on a connection whose write fails. The chunk is
  appended to the backlog, and no zero is yielded for it.
\<close>

theorem announce_failed_write_counterexample:
  "fst (announce scripted_env 0 0 0 ''UPDATE'' [[1]] (scripted_protocol scripted_idle)) = [] \<and>
   messages (snd (snd (announce scripted_env 0 0 0 ''UPDATE'' [[1]] (scripted_protocol scripted_idle))))
     = [(1, ''UPDATE'', [1])]"
  by (simp add: announce_def chunked_def scripted_env_simps scripted_write_def scripted_protocol_def
      scripted_idle_def log_message_def)

subsection \<open>The stall clock\<close>



lemma announce_buffer_frozen: "frozen (announce_buffer name chunks self) = frozen self"
  by (induction name chunks self rule: announce_buffer.induct) (simp_all add: log_message_def)




end
